theory Spec2Isabelle
  imports Complex_Main
begin

section \<open>JavaScript values\<close>

text \<open>
  The component keeps JSON data in its state: the body of the HTTP response, the value
  returned by \<^verbatim>\<open>JSON.parse\<close>, and \<^verbatim>\<open>null\<close>/\<^verbatim>\<open>undefined\<close>. An object is an association
  list read from the left; a number is the exact value of its double.
\<close>

datatype js_value =
    JUndefined
  | JNull
  | JBool bool
  | JNum rat
  | JStr string
  | JArr "js_value list"
  | JObj "(string \<times> js_value) list"

text \<open>Values thrown: \<^verbatim>\<open>new Error(msg)\<close> of the source, and the errors of the platform.\<close>

datatype js_exn =
    NewError string
  | TypeError string
  | SyntaxError string
  | DOMException string

fun message :: "js_exn \<Rightarrow> string" where
  "message (NewError m) = m"
| "message (TypeError m) = m"
| "message (SyntaxError m) = m"
| "message (DOMException m) = m"

text \<open>\<^verbatim>\<open>!v\<close> is \<open>\<not> truthy v\<close>.\<close>

fun truthy :: "js_value \<Rightarrow> bool" where
  "truthy JUndefined = False"
| "truthy JNull = False"
| "truthy (JBool b) = b"
| "truthy (JNum q) = (q \<noteq> 0)"
| "truthy (JStr s) = (s \<noteq> [])"
| "truthy (JArr xs) = True"
| "truthy (JObj kvs) = True"

fun nullish :: "js_value \<Rightarrow> bool" where
  "nullish JUndefined = True"
| "nullish JNull = True"
| "nullish v = False"

text \<open>
  \<^verbatim>\<open>v.name\<close> on a value that is neither \<^verbatim>\<open>null\<close> nor \<^verbatim>\<open>undefined\<close>, for a name that
  is not an array index and not inherited from a prototype (every name the source reads
  this way: candidates, content, parts, text, title, bulletPoints).
\<close>

fun property :: "js_value \<Rightarrow> string \<Rightarrow> js_value" where
  "property (JObj kvs) name = (case map_of kvs name of Some v \<Rightarrow> v | None \<Rightarrow> JUndefined)"
| "property v name = JUndefined"

text \<open>\<^verbatim>\<open>v[0]\<close> on a value that is neither \<^verbatim>\<open>null\<close> nor \<^verbatim>\<open>undefined\<close>.\<close>

fun elem0 :: "js_value \<Rightarrow> js_value" where
  "elem0 (JArr xs) = (case xs of [] \<Rightarrow> JUndefined | x # _ \<Rightarrow> x)"
| "elem0 (JStr s) = (case s of [] \<Rightarrow> JUndefined | c # _ \<Rightarrow> JStr [c])"
| "elem0 (JObj kvs) = (case map_of kvs ''0'' of Some v \<Rightarrow> v | None \<Rightarrow> JUndefined)"
| "elem0 v = JUndefined"

text \<open>Optional chaining: \<^verbatim>\<open>v?.name\<close> and \<^verbatim>\<open>v?.[0]\<close>.\<close>

definition opt_property :: "js_value \<Rightarrow> string \<Rightarrow> js_value" where
  "opt_property v name = (if nullish v then JUndefined else property v name)"

definition opt_elem0 :: "js_value \<Rightarrow> js_value" where
  "opt_elem0 v = (if nullish v then JUndefined else elem0 v)"

subsection \<open>Strings\<close>

fun digit_char :: "nat \<Rightarrow> char" where
  "digit_char n = char_of (48 + n)"

text \<open>The decimal digits of a non-negative integer, as \<^verbatim>\<open>ToString\<close> writes it.\<close>

fun decimal :: "nat \<Rightarrow> string" where
  "decimal n = (if n < 10 then [digit_char n] else decimal (n div 10) @ [digit_char (n mod 10)])"

declare decimal.simps [simp del]

text \<open>\<^verbatim>\<open>xs.join(sep)\<close> on an array of strings.\<close>

fun js_join :: "string \<Rightarrow> string list \<Rightarrow> string" where
  "js_join sep [] = []"
| "js_join sep [x] = x"
| "js_join sep (x # y # ys) = x @ sep @ js_join sep (y # ys)"

text \<open>\<^verbatim>\<open>s.split(c)\<close> for a one-character separator; the result is never empty.\<close>

fun js_split :: "char \<Rightarrow> string \<Rightarrow> string list" where
  "js_split c [] = [[]]"
| "js_split c (x # xs) =
     (if x = c then [] # js_split c xs
      else (case js_split c xs of [] \<Rightarrow> [[x]] | y # ys \<Rightarrow> (x # y) # ys))"

text \<open>\<^verbatim>\<open>xs[1]\<close> on an array of strings.\<close>

fun elem1 :: "string list \<Rightarrow> js_value" where
  "elem1 (a # b # _) = JStr b"
| "elem1 _ = JUndefined"

section \<open>The platform\<close>

record request =
  req_url :: string
  req_method :: string
  req_headers :: "(string \<times> string) list"
  req_body :: string

text \<open>A resolved \<^verbatim>\<open>fetch\<close>: \<^verbatim>\<open>response.ok\<close>, \<^verbatim>\<open>response.status\<close> and what
  \<^verbatim>\<open>await response.json()\<close> gives (\<open>Inl\<close> when it rejects).\<close>

record response =
  resp_ok :: bool
  resp_status :: nat
  resp_json :: "js_exn + js_value"

text \<open>
  Everything the component calls and does not define. Each asynchronous call is a function
  to its outcome, \<open>Inl\<close> the rejection. \<open>Number_toString\<close> writes a number in a template
  literal; \<open>nullish_property\<close> and \<open>not_a_function\<close> are the \<^verbatim>\<open>TypeError\<close>s of the engine
  for \<^verbatim>\<open>v.name\<close> on \<^verbatim>\<open>null\<close>/\<^verbatim>\<open>undefined\<close> and for calling a value that is no function.
  A missing \<^verbatim>\<open>navigator.clipboard\<close> is a \<^verbatim>\<open>TypeError\<close> outcome of \<open>clipboard_writeText\<close>.
\<close>

record platform =
  VITE_GEMINI_API_KEY :: js_value
  fetch :: "request \<Rightarrow> js_exn + response"
  JSON_parse :: "string \<Rightarrow> js_exn + js_value"
  JSON_stringify :: "js_value \<Rightarrow> string"
  Number_toString :: "rat \<Rightarrow> string"
  nullish_property :: "js_value \<Rightarrow> string \<Rightarrow> js_exn"
  not_a_function :: "string \<Rightarrow> js_exn"
  clipboard_writeText :: "string \<Rightarrow> js_exn + unit"

text \<open>\<^verbatim>\<open>ToString\<close>, as a template literal applies it.\<close>

fun to_string :: "platform \<Rightarrow> js_value \<Rightarrow> string" where
  "to_string env JUndefined = ''undefined''"
| "to_string env JNull = ''null''"
| "to_string env (JBool b) = (if b then ''true'' else ''false'')"
| "to_string env (JNum q) = Number_toString env q"
| "to_string env (JStr s) = s"
| "to_string env (JArr xs) =
     js_join '','' (map (\<lambda>x. if nullish x then [] else to_string env x) xs)"
| "to_string env (JObj kvs) = ''[object Object]''"

text \<open>\<^verbatim>\<open>v.name\<close> where \<^verbatim>\<open>v\<close> may be \<^verbatim>\<open>null\<close> or \<^verbatim>\<open>undefined\<close>.\<close>

definition get_property :: "platform \<Rightarrow> js_value \<Rightarrow> string \<Rightarrow> js_exn + js_value" where
  "get_property env v name = (if nullish v then Inl (nullish_property env v name) else Inr (property v name))"

definition get_elem0 :: "platform \<Rightarrow> js_value \<Rightarrow> js_exn + js_value" where
  "get_elem0 env v = (if nullish v then Inl (nullish_property env v ''0'') else Inr (elem0 v))"

definition and_then :: "js_exn + 'a \<Rightarrow> ('a \<Rightarrow> js_exn + 'b) \<Rightarrow> js_exn + 'b" where
  "and_then r f = (case r of Inl e \<Rightarrow> Inl e | Inr x \<Rightarrow> f x)"

section \<open>Component state\<close>

datatype request_status = Idle | Loading | Success | Error

record app_state =
  image_st :: js_value
  base64ImageData :: js_value
  slideContent :: js_value
  status :: request_status
  error :: string
  showToast :: bool

definition initial_state :: app_state where
  "initial_state = \<lparr> image_st = JNull, base64ImageData = JNull, slideContent = JNull,
     status = Idle, error = [], showToast = False \<rparr>"

section \<open>src/src/App.jsx\<close>

subsection \<open>handleImageUpload\<close>

text \<open>
  The argument is \<^verbatim>\<open>event.target.files\<close>. The result is the state after the synchronous
  part and the file handed to \<^verbatim>\<open>reader.readAsDataURL\<close>, if any; \<open>reader_onload\<close> is the
  callback that runs when the read has finished, with \<^verbatim>\<open>e.target.result\<close>.
\<close>

definition handleImageUpload :: "'file list \<Rightarrow> app_state \<Rightarrow> app_state \<times> 'file option" where
  "handleImageUpload files st =
     (case files of
        [] \<Rightarrow> (st, None)
      | file # _ \<Rightarrow> (st\<lparr>status := Idle, slideContent := JNull, error := []\<rparr>, Some file))"

definition reader_onload :: "string \<Rightarrow> app_state \<Rightarrow> app_state" where
  "reader_onload result st =
     st\<lparr>image_st := JStr result, base64ImageData := elem1 (js_split CHR '','' result)\<rparr>"

subsection \<open>generateSlideContent\<close>

definition prompt :: string where
  "prompt = ''You are an expert presentation creator. Analyze the following image and generate content for a single PowerPoint slide. Provide a concise, impactful title and 3-5 key bullet points that summarize the main theme or message of the image. The tone should be professional and informative. Respond with a JSON object.''"

definition apiUrl :: "platform \<Rightarrow> string" where
  "apiUrl env =
     ''https://generativelanguage.googleapis.com/v1beta/models/gemini-1.5-flash:generateContent?key=''
       @ to_string env (VITE_GEMINI_API_KEY env)"

text \<open>The object given to \<^verbatim>\<open>JSON.stringify\<close>. (The local \<^verbatim>\<open>payload\<close> of this file
  is an empty object that is never read.)\<close>

definition request_payload :: "app_state \<Rightarrow> js_value" where
  "request_payload st =
     JObj [
       (''contents'', JArr [
          JObj [(''role'', JStr ''user''),
                (''parts'', JArr [
                   JObj [(''text'', JStr prompt)],
                   JObj [(''inlineData'',
                          JObj [(''mimeType'', JStr ''image/jpeg''),
                                (''data'', base64ImageData st)])]])]]),
       (''generationConfig'', JObj [
          (''responseMimeType'', JStr ''application/json''),
          (''responseSchema'', JObj [
             (''type'', JStr ''OBJECT''),
             (''properties'', JObj [
                (''title'', JObj [(''type'', JStr ''STRING'')]),
                (''bulletPoints'', JObj [(''type'', JStr ''ARRAY''),
                                         (''items'', JObj [(''type'', JStr ''STRING'')])])]),
             (''required'', JArr [JStr ''title'', JStr ''bulletPoints''])])])]"

definition outbound_request :: "platform \<Rightarrow> app_state \<Rightarrow> request" where
  "outbound_request env st =
     \<lparr> req_url = apiUrl env, req_method = ''POST'',
       req_headers = [(''Content-Type'', ''application/json'')],
       req_body = JSON_stringify env (request_payload st) \<rparr>"

text \<open>The condition \<^verbatim>\<open>result.candidates?.[0]?.content?.parts?.[0]\<close>.\<close>

definition content_part :: "platform \<Rightarrow> js_value \<Rightarrow> js_exn + js_value" where
  "content_part env result =
     and_then (get_property env result ''candidates'') (\<lambda>candidates.
       Inr (opt_elem0 (opt_property (opt_property (opt_elem0 candidates) ''content'') ''parts'')))"

text \<open>\<^verbatim>\<open>result.candidates[0].content.parts[0].text\<close>.\<close>

definition content_text :: "platform \<Rightarrow> js_value \<Rightarrow> js_exn + js_value" where
  "content_text env result =
     and_then (get_property env result ''candidates'') (\<lambda>candidates.
     and_then (get_elem0 env candidates) (\<lambda>candidate.
     and_then (get_property env candidate ''content'') (\<lambda>content.
     and_then (get_property env content ''parts'') (\<lambda>parts.
     and_then (get_elem0 env parts) (\<lambda>part.
     get_property env part ''text'')))))"

text \<open>The body of the \<^verbatim>\<open>try\<close> block: \<open>Inr\<close> the value of \<^verbatim>\<open>parsedJson\<close>, \<open>Inl\<close> what is
  thrown to the \<^verbatim>\<open>catch\<close>.\<close>

definition try_generate :: "platform \<Rightarrow> app_state \<Rightarrow> js_exn + js_value" where
  "try_generate env st =
     and_then (fetch env (outbound_request env st)) (\<lambda>response.
       if \<not> resp_ok response
       then Inl (NewError (''API request failed with status '' @ decimal (resp_status response)))
       else
         and_then (resp_json response) (\<lambda>result.
         and_then (content_part env result) (\<lambda>part.
           if truthy part
           then and_then (content_text env result) (\<lambda>jsonText. JSON_parse env (to_string env jsonText))
           else Inl (NewError ''Unexpected API response structure.''))))"

text \<open>
  The state once the call has settled, when no other event comes in between. While the
  fetch is pending the state is \<open>st1\<close>, with status \<open>Loading\<close>.
\<close>

definition generateSlideContent :: "platform \<Rightarrow> app_state \<Rightarrow> app_state" where
  "generateSlideContent env st =
     (if \<not> truthy (base64ImageData st) then st
      else
        let st1 = st\<lparr>status := Loading\<rparr> in
        case try_generate env st of
          Inr parsedJson \<Rightarrow> st1\<lparr>slideContent := parsedJson, status := Success\<rparr>
        | Inl e \<Rightarrow> st1\<lparr>error := ''An error occurred: '' @ message e, status := Error\<rparr>)"

text \<open>
  The effect on \<^verbatim>\<open>[base64ImageData]\<close>: after a render in which the value has changed,
  \<^verbatim>\<open>generateSlideContent\<close> runs if it is truthy. Here for the render that follows the
  reader's callback.
\<close>

definition reader_loaded :: "platform \<Rightarrow> string \<Rightarrow> app_state \<Rightarrow> app_state" where
  "reader_loaded env result st =
     (let st' = reader_onload result st in
      if base64ImageData st' \<noteq> base64ImageData st \<and> truthy (base64ImageData st')
      then generateSlideContent env st' else st')"

subsection \<open>copyContentToClipboard\<close>

text \<open>\<^verbatim>\<open>v.map(f)\<close>, the results collected; only an array has a \<^verbatim>\<open>map\<close> that is a function.\<close>

fun array_map :: "platform \<Rightarrow> js_value \<Rightarrow> (js_value \<Rightarrow> 'a) \<Rightarrow> js_exn + 'a list" where
  "array_map env (JArr xs) f = Inr (map f xs)"
| "array_map env JUndefined f = Inl (nullish_property env JUndefined ''map'')"
| "array_map env JNull f = Inl (nullish_property env JNull ''map'')"
| "array_map env v f = Inl (not_a_function env ''map'')"

text \<open>The destructuring and the template literal; \<open>Inl\<close> what they throw.\<close>

definition textToCopy :: "platform \<Rightarrow> js_value \<Rightarrow> js_exn + string" where
  "textToCopy env content =
     (let title = property content ''title'';
          bulletPoints = property content ''bulletPoints''
      in and_then (array_map env bulletPoints (\<lambda>p. ''- '' @ to_string env p)) (\<lambda>lines.
           Inr (''Title:\<newline>'' @ to_string env title @ ''\<newline>\<newline>Bullet Points:\<newline>''
                @ js_join ''\<newline>'' lines)))"

text \<open>
  What one call does: the state it leaves, the text it handed to
  \<^verbatim>\<open>navigator.clipboard.writeText\<close> (if it got that far), and the error it rejects with
  (thrown outside the \<^verbatim>\<open>try\<close>).
\<close>

record copy_result =
  state_after :: app_state
  text_handed :: "string option"
  rejected_with :: "js_exn option"

definition copyContentToClipboard :: "platform \<Rightarrow> app_state \<Rightarrow> copy_result" where
  "copyContentToClipboard env st =
     (if \<not> truthy (slideContent st)
      then \<lparr> state_after = st, text_handed = None, rejected_with = None \<rparr>
      else
        case textToCopy env (slideContent st) of
          Inl e \<Rightarrow> \<lparr> state_after = st, text_handed = None, rejected_with = Some e \<rparr>
        | Inr text \<Rightarrow>
            (case clipboard_writeText env text of
               Inr _ \<Rightarrow>
                 \<lparr> state_after = st\<lparr>showToast := True\<rparr>,
                   text_handed = Some text, rejected_with = None \<rparr>
             | Inl err \<Rightarrow>
                 \<lparr> state_after = st\<lparr>error := ''Could not copy text to clipboard.'', status := Error\<rparr>,
                   text_handed = Some text, rejected_with = None \<rparr>))"

subsection \<open>The content pane\<close>

datatype view = Spinner | ErrorMessage string | SuccessContent js_value | Placeholder

text \<open>What a JSX expression \<^verbatim>\<open>{a && <V />}\<close> evaluates to: the element, or the falsy left
  operand.\<close>

datatype child = Element view | Value js_value

definition content_children :: "app_state \<Rightarrow> child list" where
  "content_children st =
     [ if status st = Loading then Element Spinner else Value (JBool False),
       if status st = Error then Element (ErrorMessage (error st)) else Value (JBool False),
       if status st = Success
       then (if truthy (slideContent st) then Element (SuccessContent (slideContent st))
             else Value (slideContent st))
       else Value (JBool False),
       if status st = Idle then Element Placeholder else Value (JBool False) ]"

text \<open>The views \<^verbatim>\<open>App\<close> puts into the pane: the elements among the children. Whether
  and how they are drawn is \<open>render_pane\<close> below.\<close>

fun view_of :: "child \<Rightarrow> view list" where
  "view_of (Element v) = [v]"
| "view_of (Value x) = []"

definition views :: "app_state \<Rightarrow> view list" where
  "views st = concat (map view_of (content_children st))"

text \<open>
  What React draws for a value used as a child: nothing for \<^verbatim>\<open>undefined\<close>, \<^verbatim>\<open>null\<close>, a
  boolean and the empty string, a text node for a number and for any other string, the
  children one after the other for an array. An object is no valid child: the render
  throws.
\<close>

datatype node = Shown view | TextNode string

fun valid_child :: "js_value \<Rightarrow> bool" where
  "valid_child (JObj kvs) = False"
| "valid_child (JArr xs) = list_all valid_child xs"
| "valid_child v = True"

fun value_nodes :: "platform \<Rightarrow> js_value \<Rightarrow> node list" where
  "value_nodes env (JNum q) = [TextNode (Number_toString env q)]"
| "value_nodes env (JStr s) = (if s = [] then [] else [TextNode s])"
| "value_nodes env (JArr xs) = concat (map (value_nodes env) xs)"
| "value_nodes env v = []"

text \<open>
  A render gives the nodes drawn, or \<open>None\<close> when it throws: no error boundary is
  defined, so React then removes the whole component and the page is blank.

  The component \<^verbatim>\<open>SuccessContent\<close>: it reads \<^verbatim>\<open>content.title\<close>, calls
  \<^verbatim>\<open>content.bulletPoints.map\<close>, and uses the title and every bullet as a child.
\<close>

definition render_SuccessContent :: "platform \<Rightarrow> js_value \<Rightarrow> node list option" where
  "render_SuccessContent env content =
     (let title = property content ''title'' in
      case array_map env (property content ''bulletPoints'') (\<lambda>point. point) of
        Inl e \<Rightarrow> None
      | Inr points \<Rightarrow>
          if valid_child title \<and> list_all valid_child points
          then Some [Shown (SuccessContent content)] else None)"

fun render_child :: "platform \<Rightarrow> child \<Rightarrow> node list option" where
  "render_child env (Element (SuccessContent content)) = render_SuccessContent env content"
| "render_child env (Element v) = Some [Shown v]"
| "render_child env (Value x) = (if valid_child x then Some (value_nodes env x) else None)"

text \<open>The children in their order; one render that throws makes the whole render throw.\<close>

fun all_drawn :: "node list option list \<Rightarrow> node list option" where
  "all_drawn [] = Some []"
| "all_drawn (None # rs) = None"
| "all_drawn (Some ns # rs) = (case all_drawn rs of None \<Rightarrow> None | Some ms \<Rightarrow> Some (ns @ ms))"

definition render_pane :: "platform \<Rightarrow> app_state \<Rightarrow> node list option" where
  "render_pane env st = all_drawn (map (render_child env) (content_children st))"

text \<open>The views among what is drawn; none when the render has thrown.\<close>

fun shown_view :: "node \<Rightarrow> view list" where
  "shown_view (Shown v) = [v]"
| "shown_view (TextNode s) = []"

fun views_drawn :: "node list option \<Rightarrow> view list" where
  "views_drawn None = []"
| "views_drawn (Some ns) = concat (map shown_view ns)"

subsection \<open>The toast timer\<close>

text \<open>
  Time is a clock in milliseconds. \<open>toast_timer\<close> is the time at which the pending
  \<^verbatim>\<open>setTimeout\<close> of the effect on \<^verbatim>\<open>[showToast]\<close> fires, if one is pending; a timer fires
  at its time, not later.
\<close>

record runtime =
  app :: app_state
  toast_timer :: "nat option"

text \<open>The effect's body at time \<open>now\<close>: the timer it leaves pending.\<close>

definition toast_effect :: "nat \<Rightarrow> bool \<Rightarrow> nat option" where
  "toast_effect now show = (if show then Some (now + 2000) else None)"

text \<open>
  A render at time \<open>now\<close> with the new state. React runs the effect again only when
  \<^verbatim>\<open>showToast\<close> differs from the last render; the cleanup (\<^verbatim>\<open>clearTimeout\<close>) runs first.
\<close>

definition commit :: "nat \<Rightarrow> app_state \<Rightarrow> runtime \<Rightarrow> runtime" where
  "commit now st' rt =
     \<lparr> app = st',
       toast_timer = (if showToast st' = showToast (app rt) then toast_timer rt
                      else toast_effect now (showToast st')) \<rparr>"

text \<open>The timer's callback \<^verbatim>\<open>() => setShowToast(false)\<close>, run at the timer's time.\<close>

definition timer_fires :: "runtime \<Rightarrow> runtime" where
  "timer_fires rt =
     (case toast_timer rt of
        None \<Rightarrow> rt
      | Some d \<Rightarrow> commit d ((app rt)\<lparr>showToast := False\<rparr>) (rt\<lparr>toast_timer := None\<rparr>))"

text \<open>The runtime at time \<open>now\<close> when no other event has happened since.\<close>

definition advance :: "nat \<Rightarrow> runtime \<Rightarrow> runtime" where
  "advance now rt =
     (case toast_timer rt of
        None \<Rightarrow> rt
      | Some d \<Rightarrow> if d \<le> now then timer_fires rt else rt)"

text \<open>A click on the copy button whose handler finishes at time \<open>now\<close>. The button is
  disabled (\<^verbatim>\<open>disabled={status !== 'success'}\<close>) unless the status is \<open>Success\<close>.\<close>

definition copy_clicked :: "platform \<Rightarrow> nat \<Rightarrow> runtime \<Rightarrow> runtime" where
  "copy_clicked env now rt =
     (let rt' = advance now rt
      in if status (app rt') \<noteq> Success then rt'
         else commit now (state_after (copyContentToClipboard env (app rt'))) rt')"

section \<open>src/unnamed/part_000\<close>

text \<open>
  The second file defines the same component again, with other markup. Its functions are
  translated one by one from its own text, under the names \<open>part000_\<dots>\<close>.
\<close>

subsection \<open>handleImageUpload\<close>

definition part000_handleImageUpload :: "'file list \<Rightarrow> app_state \<Rightarrow> app_state \<times> 'file option" where
  "part000_handleImageUpload files st =
     (case files of
        [] \<Rightarrow> (st, None)
      | file # _ \<Rightarrow> (st\<lparr>status := Idle, slideContent := JNull, error := []\<rparr>, Some file))"

definition part000_reader_onload :: "string \<Rightarrow> app_state \<Rightarrow> app_state" where
  "part000_reader_onload result st =
     st\<lparr>image_st := JStr result, base64ImageData := elem1 (js_split CHR '','' result)\<rparr>"

subsection \<open>generateSlideContent\<close>

definition part000_prompt :: string where
  "part000_prompt = ''You are an expert presentation creator. Analyze the following image and generate content for a single PowerPoint slide. Provide a concise, impactful title and 3-5 key bullet points that summarize the main theme or message of the image. The tone should be professional and informative. Respond with a JSON object.''"

definition part000_apiUrl :: "platform \<Rightarrow> string" where
  "part000_apiUrl env =
     ''https://generativelanguage.googleapis.com/v1beta/models/gemini-1.5-flash:generateContent?key=''
       @ to_string env (VITE_GEMINI_API_KEY env)"

definition part000_request_payload :: "app_state \<Rightarrow> js_value" where
  "part000_request_payload st =
     JObj [
       (''contents'', JArr [
          JObj [(''role'', JStr ''user''),
                (''parts'', JArr [
                   JObj [(''text'', JStr part000_prompt)],
                   JObj [(''inlineData'',
                          JObj [(''mimeType'', JStr ''image/jpeg''),
                                (''data'', base64ImageData st)])]])]]),
       (''generationConfig'', JObj [
          (''responseMimeType'', JStr ''application/json''),
          (''responseSchema'', JObj [
             (''type'', JStr ''OBJECT''),
             (''properties'', JObj [
                (''title'', JObj [(''type'', JStr ''STRING'')]),
                (''bulletPoints'', JObj [(''type'', JStr ''ARRAY''),
                                         (''items'', JObj [(''type'', JStr ''STRING'')])])]),
             (''required'', JArr [JStr ''title'', JStr ''bulletPoints''])])])]"

definition part000_outbound_request :: "platform \<Rightarrow> app_state \<Rightarrow> request" where
  "part000_outbound_request env st =
     \<lparr> req_url = part000_apiUrl env, req_method = ''POST'',
       req_headers = [(''Content-Type'', ''application/json'')],
       req_body = JSON_stringify env (part000_request_payload st) \<rparr>"

definition part000_content_part :: "platform \<Rightarrow> js_value \<Rightarrow> js_exn + js_value" where
  "part000_content_part env result =
     and_then (get_property env result ''candidates'') (\<lambda>candidates.
       Inr (opt_elem0 (opt_property (opt_property (opt_elem0 candidates) ''content'') ''parts'')))"

definition part000_content_text :: "platform \<Rightarrow> js_value \<Rightarrow> js_exn + js_value" where
  "part000_content_text env result =
     and_then (get_property env result ''candidates'') (\<lambda>candidates.
     and_then (get_elem0 env candidates) (\<lambda>candidate.
     and_then (get_property env candidate ''content'') (\<lambda>content.
     and_then (get_property env content ''parts'') (\<lambda>parts.
     and_then (get_elem0 env parts) (\<lambda>part.
     get_property env part ''text'')))))"

definition part000_try_generate :: "platform \<Rightarrow> app_state \<Rightarrow> js_exn + js_value" where
  "part000_try_generate env st =
     and_then (fetch env (part000_outbound_request env st)) (\<lambda>response.
       if \<not> resp_ok response
       then Inl (NewError (''API request failed with status '' @ decimal (resp_status response)))
       else
         and_then (resp_json response) (\<lambda>result.
         and_then (part000_content_part env result) (\<lambda>part.
           if truthy part
           then and_then (part000_content_text env result) (\<lambda>jsonText. JSON_parse env (to_string env jsonText))
           else Inl (NewError ''Unexpected API response structure.''))))"

definition part000_generateSlideContent :: "platform \<Rightarrow> app_state \<Rightarrow> app_state" where
  "part000_generateSlideContent env st =
     (if \<not> truthy (base64ImageData st) then st
      else
        let st1 = st\<lparr>status := Loading\<rparr> in
        case part000_try_generate env st of
          Inr parsedJson \<Rightarrow> st1\<lparr>slideContent := parsedJson, status := Success\<rparr>
        | Inl e \<Rightarrow> st1\<lparr>error := ''An error occurred: '' @ message e, status := Error\<rparr>)"

definition part000_reader_loaded :: "platform \<Rightarrow> string \<Rightarrow> app_state \<Rightarrow> app_state" where
  "part000_reader_loaded env result st =
     (let st' = part000_reader_onload result st in
      if base64ImageData st' \<noteq> base64ImageData st \<and> truthy (base64ImageData st')
      then part000_generateSlideContent env st' else st')"

subsection \<open>copyContentToClipboard\<close>

definition part000_textToCopy :: "platform \<Rightarrow> js_value \<Rightarrow> js_exn + string" where
  "part000_textToCopy env content =
     (let title = property content ''title'';
          bulletPoints = property content ''bulletPoints''
      in and_then (array_map env bulletPoints (\<lambda>p. ''- '' @ to_string env p)) (\<lambda>lines.
           Inr (''Title:\<newline>'' @ to_string env title @ ''\<newline>\<newline>Bullet Points:\<newline>''
                @ js_join ''\<newline>'' lines)))"

definition part000_copyContentToClipboard :: "platform \<Rightarrow> app_state \<Rightarrow> copy_result" where
  "part000_copyContentToClipboard env st =
     (if \<not> truthy (slideContent st)
      then \<lparr> state_after = st, text_handed = None, rejected_with = None \<rparr>
      else
        case part000_textToCopy env (slideContent st) of
          Inl e \<Rightarrow> \<lparr> state_after = st, text_handed = None, rejected_with = Some e \<rparr>
        | Inr text \<Rightarrow>
            (case clipboard_writeText env text of
               Inr _ \<Rightarrow>
                 \<lparr> state_after = st\<lparr>showToast := True\<rparr>,
                   text_handed = Some text, rejected_with = None \<rparr>
             | Inl err \<Rightarrow>
                 \<lparr> state_after = st\<lparr>error := ''Could not copy text to clipboard.'', status := Error\<rparr>,
                   text_handed = Some text, rejected_with = None \<rparr>))"

subsection \<open>The content pane\<close>

definition part000_content_children :: "app_state \<Rightarrow> child list" where
  "part000_content_children st =
     [ if status st = Loading then Element Spinner else Value (JBool False),
       if status st = Error then Element (ErrorMessage (error st)) else Value (JBool False),
       if status st = Success
       then (if truthy (slideContent st) then Element (SuccessContent (slideContent st))
             else Value (slideContent st))
       else Value (JBool False),
       if status st = Idle then Element Placeholder else Value (JBool False) ]"

definition part000_views :: "app_state \<Rightarrow> view list" where
  "part000_views st = concat (map view_of (part000_content_children st))"

definition part000_render_SuccessContent :: "platform \<Rightarrow> js_value \<Rightarrow> node list option" where
  "part000_render_SuccessContent env content =
     (let title = property content ''title'' in
      case array_map env (property content ''bulletPoints'') (\<lambda>point. point) of
        Inl e \<Rightarrow> None
      | Inr points \<Rightarrow>
          if valid_child title \<and> list_all valid_child points
          then Some [Shown (SuccessContent content)] else None)"

fun part000_render_child :: "platform \<Rightarrow> child \<Rightarrow> node list option" where
  "part000_render_child env (Element (SuccessContent content)) =
     part000_render_SuccessContent env content"
| "part000_render_child env (Element v) = Some [Shown v]"
| "part000_render_child env (Value x) = (if valid_child x then Some (value_nodes env x) else None)"

definition part000_render_pane :: "platform \<Rightarrow> app_state \<Rightarrow> node list option" where
  "part000_render_pane env st =
     all_drawn (map (part000_render_child env) (part000_content_children st))"

subsection \<open>The toast timer\<close>

definition part000_toast_effect :: "nat \<Rightarrow> bool \<Rightarrow> nat option" where
  "part000_toast_effect now show = (if show then Some (now + 2000) else None)"

definition part000_commit :: "nat \<Rightarrow> app_state \<Rightarrow> runtime \<Rightarrow> runtime" where
  "part000_commit now st' rt =
     \<lparr> app = st',
       toast_timer = (if showToast st' = showToast (app rt) then toast_timer rt
                      else part000_toast_effect now (showToast st')) \<rparr>"

definition part000_timer_fires :: "runtime \<Rightarrow> runtime" where
  "part000_timer_fires rt =
     (case toast_timer rt of
        None \<Rightarrow> rt
      | Some d \<Rightarrow> part000_commit d ((app rt)\<lparr>showToast := False\<rparr>) (rt\<lparr>toast_timer := None\<rparr>))"

definition part000_advance :: "nat \<Rightarrow> runtime \<Rightarrow> runtime" where
  "part000_advance now rt =
     (case toast_timer rt of
        None \<Rightarrow> rt
      | Some d \<Rightarrow> if d \<le> now then part000_timer_fires rt else rt)"

definition part000_copy_clicked :: "platform \<Rightarrow> nat \<Rightarrow> runtime \<Rightarrow> runtime" where
  "part000_copy_clicked env now rt =
     (let rt' = part000_advance now rt
      in if status (app rt') \<noteq> Success then rt'
         else part000_commit now (state_after (part000_copyContentToClipboard env (app rt'))) rt')"

section \<open>Scripted platforms and sample states\<close>

text \<open>
  A platform whose answers are fixed in advance: what \<^verbatim>\<open>fetch\<close> gives, a table of the
  texts \<^verbatim>\<open>JSON.parse\<close> accepts with their values, and what the clipboard write gives.
  The two conversions to text, which no scenario below reads, give the empty text. The
  theorems hold for every platform; these are the concrete ones they are instantiated at.
\<close>

definition scripted_platform ::
    "js_exn + response \<Rightarrow> (string \<times> js_value) list \<Rightarrow> js_exn + unit \<Rightarrow> platform" where
  "scripted_platform fetched parses copied =
     \<lparr> VITE_GEMINI_API_KEY = JStr ''key'',
       fetch = (\<lambda>_. fetched),
       JSON_parse = (\<lambda>s. case map_of parses s of
                           Some v \<Rightarrow> Inr v
                         | None \<Rightarrow> Inl (SyntaxError ''Unexpected token'')),
       JSON_stringify = (\<lambda>_. []),
       Number_toString = (\<lambda>_. []),
       nullish_property = (\<lambda>v name. TypeError (''Cannot read properties of ''
                                          @ (if v = JNull then ''null'' else ''undefined''))),
       not_a_function = (\<lambda>name. TypeError (name @ '' is not a function'')),
       clipboard_writeText = (\<lambda>_. copied) \<rparr>"

text \<open>The state after an image has been read and before the request starts.\<close>

definition image_loaded :: app_state where
  "image_loaded = reader_onload ''data:image/png;base64,QUJD'' initial_state"

definition response_500 :: response where
  "response_500 = \<lparr> resp_ok = False, resp_status = 500, resp_json = Inr (JObj []) \<rparr>"

text \<open>A response body with the text at \<^verbatim>\<open>candidates[0].content.parts[0].text\<close>.\<close>

definition envelope :: "string \<Rightarrow> js_value" where
  "envelope text =
     JObj [(''candidates'',
            JArr [JObj [(''content'', JObj [(''parts'', JArr [JObj [(''text'', JStr text)]])])]])]"

definition response_200 :: "js_value \<Rightarrow> response" where
  "response_200 body = \<lparr> resp_ok = True, resp_status = 200, resp_json = Inr body \<rparr>"

definition sample_content :: js_value where
  "sample_content =
     JObj [(''title'', JStr ''Q1 Results''),
           (''bulletPoints'', JArr [JStr ''Revenue up 12%'', JStr ''New markets opened''])]"

text \<open>The state in which the sample content is on display.\<close>

definition content_shown :: app_state where
  "content_shown = image_loaded\<lparr>slideContent := sample_content, status := Success\<rparr>"

definition runtime_shown :: runtime where
  "runtime_shown = \<lparr> app = content_shown, toast_timer = None \<rparr>"

text \<open>Platforms for the single scenarios; the fetch of the last two is never called.\<close>

definition answers_500 :: platform where
  "answers_500 = scripted_platform (Inr response_500) [] (Inr ())"

definition answers_sample :: platform where
  "answers_sample =
     scripted_platform (Inr (response_200 (envelope ''A''))) [(''A'', sample_content)] (Inr ())"

definition answers_garbled :: platform where
  "answers_garbled =
     scripted_platform (Inr (response_200 (envelope ''not json''))) [(''A'', sample_content)] (Inr ())"

definition answers_empty_object :: platform where
  "answers_empty_object =
     scripted_platform (Inr (response_200 (envelope ''{}''))) [(''{}'', JObj [])] (Inr ())"

definition answers_null_text :: platform where
  "answers_null_text =
     scripted_platform (Inr (response_200 (envelope ''null''))) [(''null'', JNull)] (Inr ())"

definition answers_null_body :: platform where
  "answers_null_body = scripted_platform (Inr (response_200 JNull)) [] (Inr ())"

definition clipboard_ok :: platform where
  "clipboard_ok = scripted_platform (Inl (TypeError ''Failed to fetch'')) [] (Inr ())"

definition clipboard_denied :: platform where
  "clipboard_denied =
     scripted_platform (Inl (TypeError ''Failed to fetch'')) []
       (Inl (DOMException ''Write permission denied.''))"

section \<open>Properties\<close>

subsection \<open>Values\<close>

lemma decimal_500: "decimal 500 = ''500''"
  by code_simp

text \<open>The digits written are those of the number: reading them back gives it again.\<close>

lemma decimal_value:
  "foldl (\<lambda>a c. 10 * a + (of_char c - 48)) 0 (decimal n) = n"
proof (induction n rule: decimal.induct)
  case (1 n)
  show ?case
  proof (cases "n < 10")
    case True
    then show ?thesis by (simp add: decimal.simps [of n])
  next
    case False
    with 1 show ?thesis
      by (simp add: decimal.simps [of n])
  qed
qed

lemma decimal_not_empty: "decimal n \<noteq> []"
  by (simp add: decimal.simps [of n])

lemma truthy_not_nullish: "truthy v \<Longrightarrow> \<not> nullish v"
  by (cases v) simp_all

lemma opt_property_eq: "opt_property v name = property v name"
  by (cases v) (simp_all add: opt_property_def)

lemma opt_elem0_eq: "opt_elem0 v = elem0 v"
  by (cases v) (simp_all add: opt_elem0_def)

lemma property_not_nullish: "\<not> nullish (property v name) \<Longrightarrow> \<not> nullish v"
  by (cases v) simp_all

lemma elem0_not_nullish: "\<not> nullish (elem0 v) \<Longrightarrow> \<not> nullish v"
  by (cases v) simp_all

lemma image_loaded_eq:
  "image_loaded = initial_state\<lparr>image_st := JStr ''data:image/png;base64,QUJD'',
                                base64ImageData := JStr ''QUJD''\<rparr>"
  by (simp add: image_loaded_def reader_onload_def)

lemma image_loaded_truthy: "truthy (base64ImageData image_loaded)"
  by (simp add: image_loaded_eq)

lemma scripted_fetch [simp]: "fetch (scripted_platform fetched parses copied) req = fetched"
  by (simp add: scripted_platform_def)

lemma scripted_parse [simp]:
  "JSON_parse (scripted_platform fetched parses copied) s =
     (case map_of parses s of Some v \<Rightarrow> Inr v | None \<Rightarrow> Inl (SyntaxError ''Unexpected token''))"
  by (simp add: scripted_platform_def)

lemma scripted_write [simp]:
  "clipboard_writeText (scripted_platform fetched parses copied) text = copied"
  by (simp add: scripted_platform_def)

lemma scripted_nullish [simp]:
  "nullish_property (scripted_platform fetched parses copied) JNull name =
     TypeError ''Cannot read properties of null''"
  by (simp add: scripted_platform_def)

lemma response_200_simps [simp]:
  "resp_ok (response_200 body)" "resp_status (response_200 body) = 200"
  "resp_json (response_200 body) = Inr body"
  by (simp_all add: response_200_def)

subsection \<open>The response path\<close>

lemma content_part_eq:
  "content_part env result =
     (if nullish result then Inl (nullish_property env result ''candidates'')
      else Inr (elem0 (property (property (elem0 (property result ''candidates'')) ''content'')
                  ''parts'')))"
  by (simp add: content_part_def and_then_def get_property_def opt_property_eq opt_elem0_eq)

text \<open>When the condition holds, no read on the way to the text throws.\<close>

lemma content_text_of_part:
  assumes "content_part env result = Inr part" and "truthy part"
  shows "content_text env result = Inr (property part ''text'')"
proof -
  let ?cs = "property result ''candidates''"
  let ?cand = "elem0 ?cs"
  let ?ct = "property ?cand ''content''"
  let ?ps = "property ?ct ''parts''"
  from assms(1) have r: "\<not> nullish result" and p: "part = elem0 ?ps"
    by (auto simp: content_part_eq split: if_splits)
  from assms(2) p have n5: "\<not> nullish (elem0 ?ps)"
    by (simp add: truthy_not_nullish)
  then have n4: "\<not> nullish ?ps" by (rule elem0_not_nullish)
  then have n3: "\<not> nullish ?ct" by (rule property_not_nullish)
  then have n2: "\<not> nullish ?cand" by (rule property_not_nullish)
  then have n1: "\<not> nullish ?cs" by (rule elem0_not_nullish)
  show ?thesis
    using r n1 n2 n3 n4 n5 p
    by (simp add: content_text_def and_then_def get_property_def get_elem0_def)
qed

lemma envelope_part: "content_part env (envelope text) = Inr (JObj [(''text'', JStr text)])"
  by (simp add: content_part_eq envelope_def)

subsection \<open>generateSlideContent\<close>

text \<open>
  C1, as the code has it. When the fetch resolves with an ok response whose body passes
  the test \<^verbatim>\<open>result.candidates?.[0]?.content?.parts?.[0]\<close>, the outcome depends on
  \<^verbatim>\<open>JSON.parse\<close> of the text alone: whatever value it returns is stored as the slide
  content with status \<open>Success\<close>, with no look at \<^verbatim>\<open>title\<close> or \<^verbatim>\<open>bulletPoints\<close>; status
  \<open>Error\<close> results only when it throws.
\<close>

theorem generateSlideContent_stores_any_parsed_value:
  assumes "truthy (base64ImageData st)"
    and "fetch env (outbound_request env st) = Inr response"
    and "resp_ok response"
    and "resp_json response = Inr result"
    and "content_part env result = Inr part"
    and "truthy part"
  shows "generateSlideContent env st =
           (case JSON_parse env (to_string env (property part ''text'')) of
              Inr parsedJson \<Rightarrow> st\<lparr>status := Success, slideContent := parsedJson\<rparr>
            | Inl e \<Rightarrow> st\<lparr>status := Error, error := ''An error occurred: '' @ message e\<rparr>)"
  using assms content_text_of_part [OF assms(5,6)]
  by (simp add: generateSlideContent_def try_generate_def and_then_def split: sum.splits)

theorem generateSlideContent_sample_and_garbled:
  "generateSlideContent answers_sample image_loaded =
     image_loaded\<lparr>status := Success, slideContent := sample_content\<rparr>
   \<and> generateSlideContent answers_garbled image_loaded =
     image_loaded\<lparr>status := Error, error := ''An error occurred: Unexpected token''\<rparr>"
proof -
  have part: "truthy (JObj [(''text'', JStr t)])" for t
    by simp
  have "generateSlideContent answers_sample image_loaded =
          image_loaded\<lparr>status := Success, slideContent := sample_content\<rparr>"
    using generateSlideContent_stores_any_parsed_value
      [OF image_loaded_truthy _ _ _ envelope_part part,
        of answers_sample "response_200 (envelope ''A'')" "''A''"]
    by (simp add: answers_sample_def)
  moreover have "generateSlideContent answers_garbled image_loaded =
          image_loaded\<lparr>status := Error, error := ''An error occurred: Unexpected token''\<rparr>"
    using generateSlideContent_stores_any_parsed_value
      [OF image_loaded_truthy _ _ _ envelope_part part,
        of answers_garbled "response_200 (envelope ''not json'')" "''not json''"]
    by (simp add: answers_garbled_def)
  ultimately show ?thesis by simp
qed

text \<open>
  C1, as stated, fails: the text \<^verbatim>\<open>{}\<close> parses to an object with neither \<^verbatim>\<open>title\<close> nor
  \<^verbatim>\<open>bulletPoints\<close>, and the request ends in status \<open>Success\<close> with that object stored.
\<close>

theorem generateSlideContent_accepts_empty_object:
  "content_part answers_empty_object (envelope ''{}'') = Inr (JObj [(''text'', JStr ''{}'')])
   \<and> JSON_parse answers_empty_object ''{}'' = Inr (JObj [])
   \<and> property (JObj []) ''title'' = JUndefined
   \<and> property (JObj []) ''bulletPoints'' = JUndefined
   \<and> generateSlideContent answers_empty_object image_loaded =
       image_loaded\<lparr>status := Success, slideContent := JObj []\<rparr>"
  by (simp add: generateSlideContent_def try_generate_def and_then_def envelope_part
      content_text_def get_property_def get_elem0_def answers_empty_object_def
      image_loaded_truthy)
    (simp add: envelope_def)

text \<open>
  C4. When the fetch resolves with a response that is not ok, the request ends in status
  \<open>Error\<close>, and the stored message is the text
  "An error occurred: API request failed with status " followed by the decimal digits of
  the HTTP status, so it is not empty and shows the status.
\<close>

theorem generateSlideContent_status_not_ok:
  assumes "truthy (base64ImageData st)"
    and "fetch env (outbound_request env st) = Inr response"
    and "\<not> resp_ok response"
  shows "generateSlideContent env st =
           st\<lparr>status := Error,
              error := ''An error occurred: API request failed with status ''
                         @ decimal (resp_status response)\<rparr>
         \<and> error (generateSlideContent env st) \<noteq> []"
  using assms by (simp add: generateSlideContent_def try_generate_def and_then_def)

theorem generateSlideContent_status_500:
  "truthy (base64ImageData image_loaded)
   \<and> \<not> resp_ok response_500
   \<and> generateSlideContent answers_500 image_loaded =
       image_loaded\<lparr>status := Error,
                    error := ''An error occurred: API request failed with status 500''\<rparr>"
proof -
  have h2: "fetch answers_500 (outbound_request answers_500 image_loaded) = Inr response_500"
    by (simp add: answers_500_def)
  have h3: "\<not> resp_ok response_500"
    by (simp add: response_500_def)
  have "resp_status response_500 = 500"
    by (simp add: response_500_def)
  with generateSlideContent_status_not_ok [OF image_loaded_truthy h2 h3] image_loaded_truthy h3
  show ?thesis
    by (simp add: decimal_500)
qed

text \<open>
  For a body that is not \<^verbatim>\<open>null\<close> and fails the test
  \<^verbatim>\<open>result.candidates?.[0]?.content?.parts?.[0]\<close>, the message is the fixed one.
\<close>

lemma generateSlideContent_unexpected_structure:
  assumes "truthy (base64ImageData st)"
    and "fetch env (outbound_request env st) = Inr response"
    and "resp_ok response"
    and "resp_json response = Inr result"
    and "content_part env result = Inr part"
    and "\<not> truthy part"
  shows "generateSlideContent env st =
           st\<lparr>status := Error,
              error := ''An error occurred: Unexpected API response structure.''\<rparr>"
  using assms
  by (simp add: generateSlideContent_def try_generate_def and_then_def)

lemma content_part_not_null:
  "\<not> nullish result \<Longrightarrow> \<exists>part. content_part env result = Inr part"
  by (simp add: content_part_eq)

lemma generateSlideContent_empty_body:
  "generateSlideContent (scripted_platform (Inr (response_200 (JObj []))) [] (Inr ())) image_loaded =
     image_loaded\<lparr>status := Error,
                  error := ''An error occurred: Unexpected API response structure.''\<rparr>"
  by (rule generateSlideContent_unexpected_structure
        [where part = JUndefined and result = "JObj []" and response = "response_200 (JObj [])"])
    (simp_all add: image_loaded_truthy content_part_eq)

text \<open>
  C5 at the body \<^verbatim>\<open>null\<close>. The first read, \<^verbatim>\<open>result.candidates\<close>, has no \<^verbatim>\<open>?.\<close>, so it
  throws the engine's \<^verbatim>\<open>TypeError\<close> before the test is made: the request ends in status
  \<open>Error\<close> through the catch, and the stored message carries the engine's text, not
  "Unexpected API response structure.".
\<close>

theorem generateSlideContent_null_body:
  assumes "truthy (base64ImageData st)"
    and "fetch env (outbound_request env st) = Inr response"
    and "resp_ok response"
    and "resp_json response = Inr JNull"
  shows "generateSlideContent env st =
           st\<lparr>status := Error,
              error := ''An error occurred: ''
                         @ message (nullish_property env JNull ''candidates'')\<rparr>"
  using assms
  by (simp add: generateSlideContent_def try_generate_def and_then_def content_part_eq)

theorem generateSlideContent_null_body_sample:
  "generateSlideContent answers_null_body image_loaded =
     image_loaded\<lparr>status := Error,
                  error := ''An error occurred: Cannot read properties of null''\<rparr>"
proof -
  have h2: "fetch answers_null_body (outbound_request answers_null_body image_loaded) =
              Inr (response_200 JNull)"
    by (simp add: answers_null_body_def)
  show ?thesis
    using generateSlideContent_null_body [OF image_loaded_truthy h2]
    by (simp add: answers_null_body_def)
qed

subsection \<open>handleImageUpload\<close>

lemma js_split_no_sep: "c \<notin> set a \<Longrightarrow> js_split c a = [a]"
  by (induction a) auto

lemma js_split_first: "c \<notin> set a \<Longrightarrow> js_split c (a @ c # b) = a # js_split c b"
  by (induction a) auto

lemma js_split_join:
  "\<forall>x \<in> set xs. c \<notin> set x \<Longrightarrow> xs \<noteq> [] \<Longrightarrow> js_split c (js_join [c] xs) = xs"
proof (induction xs)
  case Nil
  then show ?case by simp
next
  case (Cons x xs)
  show ?case
  proof (cases xs)
    case Nil
    with Cons.prems show ?thesis by (simp add: js_split_no_sep)
  next
    case (Cons y ys)
    with Cons.prems Cons.IH show ?thesis by (simp add: js_split_first)
  qed
qed

text \<open>The payload of a data URL \<^verbatim>\<open>header,payload\<close>.\<close>

lemma data_url_payload:
  "CHR '','' \<notin> set header \<Longrightarrow> CHR '','' \<notin> set payload \<Longrightarrow>
     elem1 (js_split CHR '','' (header @ CHR '','' # payload)) = JStr payload"
  by (simp add: js_split_first js_split_no_sep)

text \<open>
  C2. With a file in the event, the handler sets status \<open>Idle\<close>, slide content \<^verbatim>\<open>null\<close>
  and the empty error text, leaves preview and payload as they were, and starts the read
  of the file; the reader's callback, which runs after it, then sets the preview to the
  data URL and the payload to the part after the comma, with the three fields still reset.
  With no file, the handler returns the state unchanged and starts no read.
\<close>

theorem handleImageUpload_resets_then_populates:
  "handleImageUpload (file # files) st =
     (st\<lparr>status := Idle, slideContent := JNull, error := []\<rparr>, Some file)
   \<and> reader_onload result (fst (handleImageUpload (file # files) st)) =
       st\<lparr>status := Idle, slideContent := JNull, error := [], image_st := JStr result,
          base64ImageData := elem1 (js_split CHR '','' result)\<rparr>
   \<and> (CHR '','' \<notin> set header \<and> CHR '','' \<notin> set payload \<longrightarrow>
        reader_onload (header @ CHR '','' # payload) (fst (handleImageUpload (file # files) st)) =
          st\<lparr>status := Idle, slideContent := JNull, error := [],
             image_st := JStr (header @ CHR '','' # payload), base64ImageData := JStr payload\<rparr>)
   \<and> handleImageUpload [] st = (st, None)"
  by (simp add: handleImageUpload_def reader_onload_def data_url_payload)

theorem handleImageUpload_on_shown_content:
  "handleImageUpload [''next.png''] content_shown =
     (content_shown\<lparr>status := Idle, slideContent := JNull, error := []\<rparr>, Some ''next.png'')
   \<and> reader_onload ''data:image/png;base64,REVG''
         (fst (handleImageUpload [''next.png''] content_shown)) =
       content_shown\<lparr>status := Idle, slideContent := JNull, error := [],
          image_st := JStr ''data:image/png;base64,REVG'', base64ImageData := JStr ''REVG''\<rparr>
   \<and> handleImageUpload ([] :: string list) content_shown = (content_shown, None)"
  using handleImageUpload_resets_then_populates
    [of "''next.png''" "[]" content_shown "''data:image/png;base64,REVG''"
      "''data:image/png;base64''" "''REVG''"]
  by simp

subsection \<open>copyContentToClipboard\<close>

lemma sample_text:
  "textToCopy env sample_content =
     Inr ''Title:\<newline>Q1 Results\<newline>\<newline>Bullet Points:\<newline>- Revenue up 12%\<newline>- New markets opened''"
  by (simp add: textToCopy_def and_then_def sample_content_def)

lemma textToCopy_typed:
  assumes "property content ''title'' = JStr t"
    and "property content ''bulletPoints'' = JArr (map JStr ps)"
  shows "textToCopy env content =
           Inr (''Title:\<newline>'' @ t @ ''\<newline>\<newline>Bullet Points:\<newline>''
                @ js_join ''\<newline>'' (map (\<lambda>p. ''- '' @ p) ps))"
  using assms by (simp add: textToCopy_def and_then_def comp_def)

lemma property_truthy: "property content name = JStr t \<Longrightarrow> truthy content"
  by (cases content) simp_all

text \<open>
  C3. For slide content whose title is the string \<open>t\<close> and whose bullet points are the
  strings \<open>ps\<close>, the text built is "Title:", newline, \<open>t\<close>, two newlines, "Bullet Points:",
  newline, and the bullets in their order, each preceded by "- " and separated by
  newlines. That text is what the handler hands to the clipboard, whatever the platform
  and the rest of the state. For the title "Q1 Results" with the two sample bullets it
  is the text of the example.
\<close>

theorem copyContentToClipboard_text:
  assumes "property (slideContent st) ''title'' = JStr t"
    and "property (slideContent st) ''bulletPoints'' = JArr (map JStr ps)"
  shows "textToCopy env (slideContent st) =
           Inr (''Title:\<newline>'' @ t @ ''\<newline>\<newline>Bullet Points:\<newline>''
                @ js_join ''\<newline>'' (map (\<lambda>p. ''- '' @ p) ps))
         \<and> text_handed (copyContentToClipboard env st) =
           Some (''Title:\<newline>'' @ t @ ''\<newline>\<newline>Bullet Points:\<newline>''
                 @ js_join ''\<newline>'' (map (\<lambda>p. ''- '' @ p) ps))
         \<and> (slideContent st' = slideContent st \<longrightarrow>
              text_handed (copyContentToClipboard env' st') =
              text_handed (copyContentToClipboard env st))
         \<and> textToCopy env sample_content =
           Inr ''Title:\<newline>Q1 Results\<newline>\<newline>Bullet Points:\<newline>- Revenue up 12%\<newline>- New markets opened''"
proof -
  have handed: "text_handed (copyContentToClipboard e s) =
      Some (''Title:\<newline>'' @ t @ ''\<newline>\<newline>Bullet Points:\<newline>''
            @ js_join ''\<newline>'' (map (\<lambda>p. ''- '' @ p) ps))"
    if "slideContent s = slideContent st" for e s
    using that assms property_truthy [OF assms(1)] textToCopy_typed [OF assms, of e]
    by (simp add: copyContentToClipboard_def split: sum.splits)
  show ?thesis
    using textToCopy_typed [OF assms] handed sample_text by simp
qed

theorem copyContentToClipboard_text_sample:
  "text_handed (copyContentToClipboard clipboard_ok content_shown) =
     Some ''Title:\<newline>Q1 Results\<newline>\<newline>Bullet Points:\<newline>- Revenue up 12%\<newline>- New markets opened''
   \<and> text_handed (copyContentToClipboard clipboard_denied content_shown) =
     Some ''Title:\<newline>Q1 Results\<newline>\<newline>Bullet Points:\<newline>- Revenue up 12%\<newline>- New markets opened''"
proof -
  have c: "slideContent content_shown = sample_content"
    by (simp add: content_shown_def)
  have h1: "property (slideContent content_shown) ''title'' = JStr ''Q1 Results''"
    by (simp add: c sample_content_def)
  have h2: "property (slideContent content_shown) ''bulletPoints'' =
              JArr (map JStr [''Revenue up 12%'', ''New markets opened''])"
    by (simp add: c sample_content_def)
  show ?thesis
    using copyContentToClipboard_text [OF h1 h2, of clipboard_ok content_shown clipboard_denied]
      copyContentToClipboard_text [OF h1 h2, of clipboard_denied content_shown clipboard_ok]
    by simp
qed

text \<open>The same text, read line by line, when neither the title nor a bullet contains a
  newline and there is at least one bullet.\<close>

lemma textToCopy_lines:
  assumes "property content ''title'' = JStr t"
    and "property content ''bulletPoints'' = JArr (map JStr ps)"
    and "CHR ''\<newline>'' \<notin> set t" and "\<forall>p \<in> set ps. CHR ''\<newline>'' \<notin> set p" and "ps \<noteq> []"
    and "textToCopy env content = Inr text"
  shows "js_split CHR ''\<newline>'' text =
           [''Title:'', t, [], ''Bullet Points:''] @ map (\<lambda>p. ''- '' @ p) ps"
proof -
  let ?nl = "CHR ''\<newline>''"
  let ?ls = "map (\<lambda>p. ''- '' @ p) ps"
  have eq: "text = ''Title:'' @ ?nl # (t @ ?nl # ([] @ ?nl # (''Bullet Points:'' @ ?nl # js_join [?nl] ?ls)))"
    using textToCopy_typed [OF assms(1,2), of env] assms(6) by simp
  have ls: "\<forall>x \<in> set ?ls. ?nl \<notin> set x" "?ls \<noteq> []"
    using assms(4,5) by auto
  show ?thesis
    unfolding eq
    using assms(3) js_split_join [OF ls]
    by (simp add: js_split_first del: append.simps)
qed

lemma copy_failed:
  assumes "truthy (slideContent st)"
    and "textToCopy env (slideContent st) = Inr text"
    and "clipboard_writeText env text = Inl err"
  shows "copyContentToClipboard env st =
           \<lparr> state_after = st\<lparr>error := ''Could not copy text to clipboard.'', status := Error\<rparr>,
             text_handed = Some text, rejected_with = None \<rparr>"
  using assms by (simp add: copyContentToClipboard_def)

lemma copy_succeeded:
  assumes "truthy (slideContent st)"
    and "textToCopy env (slideContent st) = Inr text"
    and "clipboard_writeText env text = Inr u"
  shows "copyContentToClipboard env st =
           \<lparr> state_after = st\<lparr>showToast := True\<rparr>, text_handed = Some text,
             rejected_with = None \<rparr>"
  using assms by (simp add: copyContentToClipboard_def)

lemma content_shown_simps:
  "slideContent content_shown = sample_content" "status content_shown = Success"
  "showToast content_shown = False" "error content_shown = []"
  "truthy (slideContent content_shown)"
  by (simp_all add: content_shown_def image_loaded_eq initial_state_def sample_content_def)

lemma sample_content_truthy: "truthy sample_content"
  by (simp add: sample_content_def)

lemma views_eq:
  "views st =
     (case status st of
        Idle \<Rightarrow> [Placeholder]
      | Loading \<Rightarrow> [Spinner]
      | Success \<Rightarrow> (if truthy (slideContent st) then [SuccessContent (slideContent st)] else [])
      | Error \<Rightarrow> [ErrorMessage (error st)])"
  by (cases "status st") (simp_all add: views_def content_children_def)

text \<open>
  C7. When the text has been built and the clipboard write rejects, the handler stores
  the fixed message "Could not copy text to clipboard." and status \<open>Error\<close>, whatever
  the status was; the content pane then shows the error view and no longer the content.
  The handler does not touch \<^verbatim>\<open>showToast\<close>, and the render that follows starts no toast
  timer.
\<close>

theorem copyContentToClipboard_write_rejected:
  assumes "truthy (slideContent st)"
    and "textToCopy env (slideContent st) = Inr text"
    and "clipboard_writeText env text = Inl err"
  shows "state_after (copyContentToClipboard env st) =
           st\<lparr>error := ''Could not copy text to clipboard.'', status := Error\<rparr>
         \<and> views (state_after (copyContentToClipboard env st)) =
             [ErrorMessage ''Could not copy text to clipboard.'']
         \<and> showToast (state_after (copyContentToClipboard env st)) = showToast st
         \<and> toast_timer (commit now (state_after (copyContentToClipboard env st))
                          \<lparr> app = st, toast_timer = pending \<rparr>) = pending"
  by (simp add: copy_failed [OF assms] views_eq commit_def)

lemma content_shown_text:
  "textToCopy env (slideContent content_shown) =
     Inr ''Title:\<newline>Q1 Results\<newline>\<newline>Bullet Points:\<newline>- Revenue up 12%\<newline>- New markets opened''"
  by (simp add: content_shown_simps(1) sample_text)

lemma clipboard_denied_rejects:
  "clipboard_writeText clipboard_denied s = Inl (DOMException ''Write permission denied.'')"
  by (simp add: clipboard_denied_def)

theorem copyContentToClipboard_write_rejected_sample:
  "state_after (copyContentToClipboard clipboard_denied content_shown) =
     content_shown\<lparr>error := ''Could not copy text to clipboard.'', status := Error\<rparr>
   \<and> views content_shown = [SuccessContent sample_content]
   \<and> views (state_after (copyContentToClipboard clipboard_denied content_shown)) =
       [ErrorMessage ''Could not copy text to clipboard.'']
   \<and> \<not> showToast (state_after (copyContentToClipboard clipboard_denied content_shown))
   \<and> toast_timer (commit 0 (state_after (copyContentToClipboard clipboard_denied content_shown))
                    runtime_shown) = None"
proof -
  have shown: "views content_shown = [SuccessContent sample_content]"
    by (simp add: views_eq content_shown_simps(1,2) sample_content_truthy)
  have rt: "runtime_shown = \<lparr> app = content_shown, toast_timer = None \<rparr>"
    by (rule runtime_shown_def)
  let ?after = "state_after (copyContentToClipboard clipboard_denied content_shown)"
  from copyContentToClipboard_write_rejected
    [OF content_shown_simps(5) content_shown_text clipboard_denied_rejects, of 0 None]
  have a: "?after = content_shown\<lparr>error := ''Could not copy text to clipboard.'', status := Error\<rparr>"
    and b: "views ?after = [ErrorMessage ''Could not copy text to clipboard.'']"
    and c: "showToast ?after = showToast content_shown"
    and d: "toast_timer (commit 0 ?after \<lparr> app = content_shown, toast_timer = None \<rparr>) = None"
    by blast+
  from c have c': "\<not> showToast ?after"
    by (simp add: content_shown_simps(3))
  from d have d': "toast_timer (commit 0 ?after runtime_shown) = None"
    by (simp only: rt)
  from a shown b c' d' show ?thesis
    by (intro conjI)
qed

text \<open>
  C10. When the clipboard write rejects, the preview, the payload, the slide content and
  \<^verbatim>\<open>showToast\<close> are as before (the slide content is kept, only the error view hides
  it). With slide content \<^verbatim>\<open>null\<close>, the handler returns at once: the state is unchanged,
  nothing is handed to the clipboard and nothing is thrown.
\<close>

theorem copyContentToClipboard_frame:
  "(truthy (slideContent st) \<and> textToCopy env (slideContent st) = Inr text
      \<and> clipboard_writeText env text = Inl err \<longrightarrow>
      image_st (state_after (copyContentToClipboard env st)) = image_st st
      \<and> base64ImageData (state_after (copyContentToClipboard env st)) = base64ImageData st
      \<and> slideContent (state_after (copyContentToClipboard env st)) = slideContent st
      \<and> showToast (state_after (copyContentToClipboard env st)) = showToast st)
   \<and> (slideContent st = JNull \<longrightarrow>
      copyContentToClipboard env st =
        \<lparr> state_after = st, text_handed = None, rejected_with = None \<rparr>)"
  by (auto simp: copy_failed copyContentToClipboard_def)

theorem copyContentToClipboard_frame_sample:
  "image_st (state_after (copyContentToClipboard clipboard_denied content_shown)) =
     JStr ''data:image/png;base64,QUJD''
   \<and> base64ImageData (state_after (copyContentToClipboard clipboard_denied content_shown)) =
     JStr ''QUJD''
   \<and> slideContent (state_after (copyContentToClipboard clipboard_denied content_shown)) =
     sample_content
   \<and> \<not> showToast (state_after (copyContentToClipboard clipboard_denied content_shown))
   \<and> copyContentToClipboard clipboard_ok image_loaded =
     \<lparr> state_after = image_loaded, text_handed = None, rejected_with = None \<rparr>"
proof -
  have null: "slideContent image_loaded = JNull"
    by (simp add: image_loaded_eq initial_state_def)
  have hyp: "truthy (slideContent content_shown)
      \<and> textToCopy clipboard_denied (slideContent content_shown) =
          Inr ''Title:\<newline>Q1 Results\<newline>\<newline>Bullet Points:\<newline>- Revenue up 12%\<newline>- New markets opened''
      \<and> clipboard_writeText clipboard_denied
          ''Title:\<newline>Q1 Results\<newline>\<newline>Bullet Points:\<newline>- Revenue up 12%\<newline>- New markets opened''
          = Inl (DOMException ''Write permission denied.'')"
    by (simp add: content_shown_simps(5) content_shown_text clipboard_denied_rejects)
  have kept: "image_st content_shown = JStr ''data:image/png;base64,QUJD''"
    "base64ImageData content_shown = JStr ''QUJD''"
    by (simp_all add: content_shown_def image_loaded_eq)
  show ?thesis
    using copyContentToClipboard_frame [THEN conjunct1, THEN mp, OF hyp]
      copyContentToClipboard_frame [THEN conjunct2, THEN mp, OF null, of clipboard_ok]
    by (simp add: content_shown_simps(1,3) kept)
qed

subsection \<open>The content pane\<close>

lemma falsy_valid: "\<not> truthy v \<Longrightarrow> valid_child v"
  by (cases v) simp_all

lemma falsy_no_view: "\<not> truthy v \<Longrightarrow> concat (map shown_view (value_nodes env v)) = []"
  by (cases v) simp_all

lemma render_SuccessContent_eq:
  "render_SuccessContent env content =
     (case property content ''bulletPoints'' of
        JArr points \<Rightarrow>
          if valid_child (property content ''title'') \<and> list_all valid_child points
          then Some [Shown (SuccessContent content)] else None
      | _ \<Rightarrow> None)"
  by (cases "property content ''bulletPoints''") (simp_all add: render_SuccessContent_def)

lemma render_pane_eq:
  "render_pane env st =
     (case status st of
        Idle \<Rightarrow> Some [Shown Placeholder]
      | Loading \<Rightarrow> Some [Shown Spinner]
      | Success \<Rightarrow>
          (if truthy (slideContent st) then render_SuccessContent env (slideContent st)
           else Some (value_nodes env (slideContent st)))
      | Error \<Rightarrow> Some [Shown (ErrorMessage (error st))])"
proof -
  have skip: "all_drawn (Some [] # rs) = all_drawn rs" for rs
    by (cases "all_drawn rs") simp_all
  have pad: "all_drawn (r # Some [] # rs) = all_drawn (r # rs)" for r rs
    by (cases r; cases "all_drawn rs"; simp)
  have single: "all_drawn [r] = r" for r
    by (cases r) simp_all
  show ?thesis
    by (cases "status st")
      (simp_all add: render_pane_def content_children_def falsy_valid skip pad single
        del: all_drawn.simps)
qed

lemma part000_render_SuccessContent_eq: "part000_render_SuccessContent = render_SuccessContent"
  unfolding fun_eq_iff part000_render_SuccessContent_def render_SuccessContent_def by simp

lemma part000_render_child_eq: "part000_render_child env c = render_child env c"
  by (induction env c rule: render_child.induct) (simp_all add: part000_render_SuccessContent_eq)

lemma part000_render_pane_eq: "part000_render_pane env st = render_pane env st"
  by (simp add: part000_render_pane_def render_pane_def part000_content_children_def
      content_children_def part000_render_child_eq)

text \<open>
  C6, as the code has it. In status \<open>Success\<close> with slide content \<^verbatim>\<open>null\<close> the pane is
  drawn empty: none of the four views, and not the placeholder. In general the pane draws
  the placeholder when idle, the spinner when loading and the error view when in error.
  In status \<open>Success\<close> it draws, for falsy content, what React draws for that value
  (nothing for \<^verbatim>\<open>null\<close>), and for truthy content the success view when \<^verbatim>\<open>bulletPoints\<close> is
  an array and neither the title nor a bullet is or holds an object; otherwise the render
  throws. So at most one view is drawn, and exactly one is drawn precisely when the
  status is idle, loading or error, or the status is success with truthy content that the
  success view can draw. Both files draw the same.
\<close>

theorem render_pane_by_status:
  "render_pane env st =
     (case status st of
        Idle \<Rightarrow> Some [Shown Placeholder]
      | Loading \<Rightarrow> Some [Shown Spinner]
      | Success \<Rightarrow>
          (if \<not> truthy (slideContent st) then Some (value_nodes env (slideContent st))
           else case property (slideContent st) ''bulletPoints'' of
                  JArr points \<Rightarrow>
                    if valid_child (property (slideContent st) ''title'')
                       \<and> list_all valid_child points
                    then Some [Shown (SuccessContent (slideContent st))] else None
                | _ \<Rightarrow> None)
      | Error \<Rightarrow> Some [Shown (ErrorMessage (error st))])
   \<and> (status st = Success \<and> slideContent st = JNull \<longrightarrow> render_pane env st = Some [])
   \<and> length (views_drawn (render_pane env st)) \<le> 1
   \<and> (length (views_drawn (render_pane env st)) = 1) =
       (status st = Idle \<or> status st = Loading \<or> status st = Error
        \<or> (status st = Success \<and> truthy (slideContent st)
            \<and> valid_child (property (slideContent st) ''title'')
            \<and> (\<exists>points. property (slideContent st) ''bulletPoints'' = JArr points
                  \<and> list_all valid_child points)))
   \<and> part000_render_pane env st = render_pane env st"
proof (cases "status st")
  case Success
  show ?thesis
  proof (cases "truthy (slideContent st)")
    case True
    with Success show ?thesis
      by (cases "property (slideContent st) ''bulletPoints''")
        (auto simp: render_pane_eq render_SuccessContent_eq part000_render_pane_eq)
  next
    case False
    with Success show ?thesis
      by (auto simp: render_pane_eq part000_render_pane_eq falsy_no_view)
  qed
qed (simp_all add: render_pane_eq part000_render_pane_eq)

theorem render_pane_samples:
  "render_pane clipboard_ok content_shown = Some [Shown (SuccessContent sample_content)]
   \<and> render_pane clipboard_ok image_loaded = Some [Shown Placeholder]
   \<and> render_pane clipboard_ok (image_loaded\<lparr>status := Loading\<rparr>) = Some [Shown Spinner]
   \<and> render_pane clipboard_ok (image_loaded\<lparr>status := Success\<rparr>) = Some []
   \<and> render_pane clipboard_ok (image_loaded\<lparr>status := Success, slideContent := JNum 0\<rparr>) =
       Some [TextNode (Number_toString clipboard_ok 0)]
   \<and> render_pane clipboard_ok (image_loaded\<lparr>status := Success, slideContent := JObj []\<rparr>) = None
   \<and> length (views_drawn
         (render_pane clipboard_ok (image_loaded\<lparr>status := Success, slideContent := JObj []\<rparr>))) = 0"
proof -
  have idle: "status image_loaded = Idle" and null: "slideContent image_loaded = JNull"
    by (simp_all add: image_loaded_eq initial_state_def)
  have shown: "render_pane clipboard_ok content_shown = Some [Shown (SuccessContent sample_content)]"
  proof -
    have title: "property sample_content ''title'' = JStr ''Q1 Results''"
      and bullets: "property sample_content ''bulletPoints'' =
                      JArr [JStr ''Revenue up 12%'', JStr ''New markets opened'']"
      by (simp_all add: sample_content_def)
    show ?thesis
      using render_pane_by_status [of clipboard_ok content_shown, THEN conjunct1]
      by (simp add: content_shown_simps(1,2) sample_content_truthy title bullets)
  qed
  have placeholder: "render_pane clipboard_ok image_loaded = Some [Shown Placeholder]"
    using render_pane_by_status [of clipboard_ok image_loaded, THEN conjunct1]
    by (simp add: idle)
  have spinner: "render_pane clipboard_ok (image_loaded\<lparr>status := Loading\<rparr>) = Some [Shown Spinner]"
    using render_pane_by_status [of clipboard_ok "image_loaded\<lparr>status := Loading\<rparr>", THEN conjunct1]
    by simp
  have blank: "render_pane clipboard_ok (image_loaded\<lparr>status := Success\<rparr>) = Some []"
    using render_pane_by_status
      [of clipboard_ok "image_loaded\<lparr>status := Success\<rparr>", THEN conjunct2, THEN conjunct1]
    by (simp add: null)
  have zero: "render_pane clipboard_ok (image_loaded\<lparr>status := Success, slideContent := JNum 0\<rparr>) =
      Some [TextNode (Number_toString clipboard_ok 0)]"
    using render_pane_by_status
      [of clipboard_ok "image_loaded\<lparr>status := Success, slideContent := JNum 0\<rparr>", THEN conjunct1]
    by simp
  have thrown: "render_pane clipboard_ok (image_loaded\<lparr>status := Success, slideContent := JObj []\<rparr>) = None"
    using render_pane_by_status
      [of clipboard_ok "image_loaded\<lparr>status := Success, slideContent := JObj []\<rparr>", THEN conjunct1]
    by simp
  from thrown have none: "length (views_drawn
      (render_pane clipboard_ok (image_loaded\<lparr>status := Success, slideContent := JObj []\<rparr>))) = 0"
    by simp
  from shown placeholder spinner blank zero thrown none show ?thesis
    by (intro conjI)
qed

text \<open>
  C6, as stated, fails. A response whose text is \<^verbatim>\<open>null\<close> leaves status \<open>Success\<close> with
  slide content \<^verbatim>\<open>null\<close>; in that state the four children of the pane are \<^verbatim>\<open>false\<close>,
  \<^verbatim>\<open>false\<close>, \<^verbatim>\<open>null\<close>, \<^verbatim>\<open>false\<close>, and the pane is drawn empty, with no view, while the
  idle state draws the placeholder.
\<close>

theorem success_with_null_content_shows_nothing:
  "generateSlideContent answers_null_text image_loaded =
     image_loaded\<lparr>status := Success, slideContent := JNull\<rparr>
   \<and> content_children (image_loaded\<lparr>status := Success, slideContent := JNull\<rparr>) =
       [Value (JBool False), Value (JBool False), Value JNull, Value (JBool False)]
   \<and> render_pane answers_null_text (image_loaded\<lparr>status := Success, slideContent := JNull\<rparr>) =
       Some []
   \<and> views_drawn
         (render_pane answers_null_text (image_loaded\<lparr>status := Success, slideContent := JNull\<rparr>)) = []
   \<and> render_pane answers_null_text image_loaded = Some [Shown Placeholder]"
proof -
  have "generateSlideContent answers_null_text image_loaded =
          image_loaded\<lparr>status := Success, slideContent := JNull\<rparr>"
    by (simp add: generateSlideContent_def try_generate_def and_then_def envelope_part
        content_text_def get_property_def get_elem0_def answers_null_text_def
        image_loaded_truthy)
      (simp add: envelope_def)
  moreover have "status image_loaded = Idle"
    by (simp add: image_loaded_eq initial_state_def)
  ultimately show ?thesis
    by (simp add: render_pane_eq content_children_def)
qed

subsection \<open>The toast timer\<close>

lemma advance_before: "toast_timer rt = Some d \<Longrightarrow> now < d \<Longrightarrow> advance now rt = rt"
  by (simp add: advance_def)

lemma advance_after:
  "toast_timer rt = Some d \<Longrightarrow> d \<le> now \<Longrightarrow> showToast (app rt) \<Longrightarrow>
     advance now rt = \<lparr> app = (app rt)\<lparr>showToast := False\<rparr>, toast_timer = None \<rparr>"
  by (simp add: advance_def timer_fires_def commit_def toast_effect_def)

lemma advance_idle: "toast_timer rt = None \<Longrightarrow> advance now rt = rt"
  by (simp add: advance_def)

text \<open>The first click shows the toast and leaves one timer, due 2000 ms later.\<close>

lemma first_click:
  assumes "\<not> showToast (app rt)" and "toast_timer rt = None"
    and "status (app rt) = Success"
    and "truthy (slideContent (app rt))"
    and "textToCopy env (slideContent (app rt)) = Inr text"
    and "clipboard_writeText env text = Inr u"
  shows "copy_clicked env t1 rt =
           \<lparr> app = (app rt)\<lparr>showToast := True\<rparr>, toast_timer = Some (t1 + 2000) \<rparr>"
  using assms
  by (simp add: copy_clicked_def advance_idle copy_succeeded [OF assms(4,5,6)] commit_def
      toast_effect_def)

text \<open>A click while the toast is shown changes nothing: \<^verbatim>\<open>showToast\<close> is set to the value
  it has, so the effect does not run again and the pending timer stays.\<close>

lemma click_while_shown:
  assumes "showToast (app rt)" and "toast_timer rt = Some d" and "now < d"
    and "truthy (slideContent (app rt))"
    and "textToCopy env (slideContent (app rt)) = Inr text"
    and "clipboard_writeText env text = Inr u"
  shows "copy_clicked env now rt = rt"
  using assms
  by (simp add: copy_clicked_def advance_before copy_succeeded [OF assms(4,5,6)] commit_def)

lemma runtime_shown_ready:
  "\<not> showToast (app runtime_shown)" "toast_timer runtime_shown = None"
  "status (app runtime_shown) = Success"
  "truthy (slideContent (app runtime_shown))"
  "textToCopy clipboard_ok (slideContent (app runtime_shown)) =
     Inr ''Title:\<newline>Q1 Results\<newline>\<newline>Bullet Points:\<newline>- Revenue up 12%\<newline>- New markets opened''"
  by (simp_all add: runtime_shown_def content_shown_simps(2,3,5) content_shown_text)

lemma clipboard_ok_writes: "clipboard_writeText clipboard_ok s = Inr ()"
  by (simp add: clipboard_ok_def)

text \<open>
  C8, as the code has it. Start with no toast shown and no timer pending, in status
  \<open>Success\<close> with content that can be copied. A successful click at time \<open>t1\<close> shows the toast and
  leaves a timer due at \<open>t1 + 2000\<close>. A second successful click at \<open>t2\<close>, before that
  timer is due, changes nothing: no second timer, and the first is not restarted. The
  toast is shown at every time before \<open>t1 + 2000\<close> and hidden, with no timer pending, from
  \<open>t1 + 2000\<close> on: 2000 ms after the first click, not after the second.
\<close>

theorem toast_window_runs_from_first_click:
  assumes "\<not> showToast (app rt)" and "toast_timer rt = None"
    and "status (app rt) = Success"
    and "truthy (slideContent (app rt))"
    and "textToCopy env (slideContent (app rt)) = Inr text"
    and "clipboard_writeText env text = Inr u"
    and "t1 \<le> t2" and "t2 < t1 + 2000"
  shows "showToast (app (copy_clicked env t1 rt))
         \<and> toast_timer (copy_clicked env t1 rt) = Some (t1 + 2000)
         \<and> copy_clicked env t2 (copy_clicked env t1 rt) = copy_clicked env t1 rt
         \<and> (\<forall>t. t < t1 + 2000 \<longrightarrow>
               showToast (app (advance t (copy_clicked env t2 (copy_clicked env t1 rt)))))
         \<and> (\<forall>t. t1 + 2000 \<le> t \<longrightarrow>
               \<not> showToast (app (advance t (copy_clicked env t2 (copy_clicked env t1 rt))))
               \<and> toast_timer (advance t (copy_clicked env t2 (copy_clicked env t1 rt))) = None)"
proof -
  let ?rt1 = "copy_clicked env t1 rt"
  have rt1: "?rt1 = \<lparr> app = (app rt)\<lparr>showToast := True\<rparr>, toast_timer = Some (t1 + 2000) \<rparr>"
    by (rule first_click [OF assms(1-6)])
  have shown: "showToast (app ?rt1)" and timer: "toast_timer ?rt1 = Some (t1 + 2000)"
    by (simp_all add: rt1)
  have content: "slideContent (app ?rt1) = slideContent (app rt)"
    by (simp add: rt1)
  have rt2: "copy_clicked env t2 ?rt1 = ?rt1"
    using click_while_shown [OF shown timer assms(8)] assms(4,5,6) content by simp
  have before: "showToast (app (advance t ?rt1))" if "t < t1 + 2000" for t
    using advance_before [OF timer that] shown by simp
  have after: "\<not> showToast (app (advance t ?rt1)) \<and> toast_timer (advance t ?rt1) = None"
    if "t1 + 2000 \<le> t" for t
    using advance_after [OF timer that shown] by simp
  show ?thesis
    using shown timer rt2 before after by simp
qed

theorem toast_window_sample:
  "showToast (app (copy_clicked clipboard_ok 0 runtime_shown))
   \<and> copy_clicked clipboard_ok 1500 (copy_clicked clipboard_ok 0 runtime_shown) =
       copy_clicked clipboard_ok 0 runtime_shown
   \<and> showToast (app (advance 1500
        (copy_clicked clipboard_ok 1500 (copy_clicked clipboard_ok 0 runtime_shown))))
   \<and> \<not> showToast (app (advance 2000
        (copy_clicked clipboard_ok 1500 (copy_clicked clipboard_ok 0 runtime_shown))))"
proof -
  have t: "(0::nat) \<le> 1500" "(1500::nat) < 0 + 2000"
    by simp_all
  note w = toast_window_runs_from_first_click [OF runtime_shown_ready clipboard_ok_writes t]
  from w have "showToast (app (copy_clicked clipboard_ok 0 runtime_shown))"
    and "copy_clicked clipboard_ok 1500 (copy_clicked clipboard_ok 0 runtime_shown) =
       copy_clicked clipboard_ok 0 runtime_shown"
    by blast+
  moreover have "showToast (app (advance 1500
        (copy_clicked clipboard_ok 1500 (copy_clicked clipboard_ok 0 runtime_shown))))"
    using w [THEN conjunct2, THEN conjunct2, THEN conjunct2, THEN conjunct1, rule_format, of 1500]
    by simp
  moreover have "\<not> showToast (app (advance 2000
        (copy_clicked clipboard_ok 1500 (copy_clicked clipboard_ok 0 runtime_shown))))"
    using w [THEN conjunct2, THEN conjunct2, THEN conjunct2, THEN conjunct2, rule_format, of 2000]
    by simp
  ultimately show ?thesis by (intro conjI)
qed

text \<open>
  C8, as stated, fails. After successful clicks at 0 and at 1000 the one timer is due at
  2000: the toast is still shown at 1999 and is hidden at 2000 and at 2500, inside the
  two seconds that follow the second click.
\<close>

theorem toast_hidden_two_seconds_after_first_click:
  "toast_timer (copy_clicked clipboard_ok 1000 (copy_clicked clipboard_ok 0 runtime_shown))
     = Some 2000
   \<and> showToast (app (advance 1999
         (copy_clicked clipboard_ok 1000 (copy_clicked clipboard_ok 0 runtime_shown))))
   \<and> \<not> showToast (app (advance 2000
         (copy_clicked clipboard_ok 1000 (copy_clicked clipboard_ok 0 runtime_shown))))
   \<and> \<not> showToast (app (advance 2500
         (copy_clicked clipboard_ok 1000 (copy_clicked clipboard_ok 0 runtime_shown))))"
proof -
  let ?rt1 = "copy_clicked clipboard_ok 0 runtime_shown"
  have rt1: "?rt1 = \<lparr> app = (app runtime_shown)\<lparr>showToast := True\<rparr>, toast_timer = Some 2000 \<rparr>"
    using first_click [OF runtime_shown_ready clipboard_ok_writes, of 0] by simp
  have shown: "showToast (app ?rt1)" and timer: "toast_timer ?rt1 = Some 2000"
    by (simp_all add: rt1)
  have "slideContent (app ?rt1) = slideContent (app runtime_shown)"
    by (simp add: rt1)
  then have rt2: "copy_clicked clipboard_ok 1000 ?rt1 = ?rt1"
    using click_while_shown [OF shown timer _ _ _ clipboard_ok_writes, of 1000]
      runtime_shown_ready(4,5)
    by simp
  have "advance 1999 ?rt1 = ?rt1"
    using advance_before [OF timer, of 1999] by simp
  moreover have "\<not> showToast (app (advance 2000 ?rt1))"
    using advance_after [OF timer _ shown, of 2000] by simp
  moreover have "\<not> showToast (app (advance 2500 ?rt1))"
    using advance_after [OF timer _ shown, of 2500] by simp
  ultimately show ?thesis
    using rt2 shown timer by simp
qed

subsection \<open>The two files\<close>

lemma part000_request_eq: "part000_outbound_request = outbound_request"
  unfolding fun_eq_iff part000_outbound_request_def outbound_request_def
    part000_apiUrl_def apiUrl_def part000_request_payload_def request_payload_def
    part000_prompt_def prompt_def
  by simp

lemma part000_content_part_eq: "part000_content_part = content_part"
  unfolding fun_eq_iff part000_content_part_def content_part_def by simp

lemma part000_content_text_eq: "part000_content_text = content_text"
  unfolding fun_eq_iff part000_content_text_def content_text_def by simp

lemma part000_try_eq: "part000_try_generate = try_generate"
  unfolding fun_eq_iff part000_try_generate_def try_generate_def part000_request_eq
    part000_content_part_eq part000_content_text_eq
  by simp

lemma part000_generate_eq: "part000_generateSlideContent = generateSlideContent"
  unfolding fun_eq_iff part000_generateSlideContent_def generateSlideContent_def part000_try_eq
  by simp

lemma part000_onload_eq: "part000_reader_onload = reader_onload"
  unfolding fun_eq_iff part000_reader_onload_def reader_onload_def by simp

lemma part000_reader_loaded_eq: "part000_reader_loaded = reader_loaded"
  unfolding fun_eq_iff part000_reader_loaded_def reader_loaded_def part000_onload_eq
    part000_generate_eq
  by simp

lemma part000_text_eq: "part000_textToCopy = textToCopy"
  unfolding fun_eq_iff part000_textToCopy_def textToCopy_def by simp

lemma part000_copy_eq: "part000_copyContentToClipboard = copyContentToClipboard"
  unfolding fun_eq_iff part000_copyContentToClipboard_def copyContentToClipboard_def
    part000_text_eq
  by simp

lemma part000_views_eq: "part000_views = views"
  unfolding fun_eq_iff part000_views_def views_def part000_content_children_def
    content_children_def
  by simp

lemma part000_toast_effect_eq: "part000_toast_effect = toast_effect"
  unfolding fun_eq_iff part000_toast_effect_def toast_effect_def by simp

lemma part000_commit_eq: "part000_commit = commit"
  unfolding fun_eq_iff part000_commit_def commit_def part000_toast_effect_eq by simp

lemma part000_timer_fires_eq: "part000_timer_fires = timer_fires"
  unfolding fun_eq_iff part000_timer_fires_def timer_fires_def part000_commit_eq by simp

lemma part000_advance_eq: "part000_advance = advance"
  unfolding fun_eq_iff part000_advance_def advance_def part000_timer_fires_eq by simp

lemma part000_copy_clicked_eq: "part000_copy_clicked = copy_clicked"
  unfolding fun_eq_iff part000_copy_clicked_def copy_clicked_def part000_advance_eq
    part000_commit_eq part000_copy_eq
  by simp

text \<open>
  C9. The functions of the second file equal those of the first: for every event, state
  and platform, the upload handler, the reader's callback, the request sent, the request
  handler, the text built and the copy handler give the same results, and so do the views
  chosen and the toast timer.
\<close>

theorem part000_equals_App:
  "part000_handleImageUpload = (handleImageUpload :: 'file list \<Rightarrow> app_state \<Rightarrow> app_state \<times> 'file option)
   \<and> part000_reader_onload = reader_onload
   \<and> part000_outbound_request = outbound_request
   \<and> part000_generateSlideContent = generateSlideContent
   \<and> part000_reader_loaded = reader_loaded
   \<and> part000_textToCopy = textToCopy
   \<and> part000_copyContentToClipboard = copyContentToClipboard
   \<and> part000_views = views
   \<and> part000_toast_effect = toast_effect
   \<and> part000_advance = advance
   \<and> part000_copy_clicked = copy_clicked"
proof -
  have "part000_handleImageUpload =
          (handleImageUpload :: 'file list \<Rightarrow> app_state \<Rightarrow> app_state \<times> 'file option)"
    unfolding fun_eq_iff part000_handleImageUpload_def handleImageUpload_def by simp
  then show ?thesis
    by (simp add: part000_onload_eq part000_request_eq part000_generate_eq
        part000_reader_loaded_eq part000_text_eq part000_copy_eq part000_views_eq
        part000_toast_effect_eq part000_advance_eq part000_copy_clicked_eq)
qed

end
